theory Spec2Isabelle
  imports Complex_Main "HOL-Library.Multiset"
begin

section \<open>CropAI pest-risk engine (\<^verbatim>\<open>pest_risk.py\<close>)\<close>

text \<open>
  Conventions of the embedding.
  \<^item> A Python \<^verbatim>\<open>float\<close> is an exact rational (\<^typ>\<open>rat\<close>): comparisons and sums are
    the mathematical ones, IEEE rounding and NaN are not represented.
  \<^item> A Python \<^verbatim>\<open>str\<close> is the list of the bytes of its UTF-8 encoding; the literals
    of the source are copied byte for byte.
  \<^item> A \<^verbatim>\<open>dict\<close> is an association list in insertion order, since the engine iterates
    over its dictionaries and sorts their items.
  \<^item> An exception that leaves a function is a value \<open>Inl e\<close> of a sum type.
\<close>

subsection \<open>Data model\<close>

record WeatherData =
  temperature :: rat
  humidity :: rat
  rainfall :: rat
  timestamp :: int

record PestRiskAssessment =
  risk_level :: string
  risk_color :: string
  risk_emoji :: string
  confidence :: rat
  primary_threats :: "string list"
  recommendations :: "string list"
  weather_summary :: string
  detailed_analysis :: "(string \<times> string) list"

text \<open>The dictionary returned by \<^verbatim>\<open>_determine_overall_risk\<close>, one field per key.\<close>

record overall_risk =
  level :: string
  color :: string
  emoji :: string
  risk_confidence :: rat

datatype py_error = ValueError

subsection \<open>\<^verbatim>\<open>_calculate_individual_pest_risks\<close>\<close>

definition calculate_individual_pest_risks :: "WeatherData \<Rightarrow> (string \<times> rat) list" where
  "calculate_individual_pest_risks weather_data =
    (let temp = temperature weather_data;
         humid = humidity weather_data;
         rain = rainfall weather_data;
         aphid_risk = 0;
         aphid_risk = (if 15 \<le> temp \<and> temp \<le> 25 then aphid_risk + 4/10 else aphid_risk);
         aphid_risk = (if humid > 50 then aphid_risk + 3/10 else aphid_risk);
         aphid_risk = (if rain < 10 then aphid_risk + 3/10 else aphid_risk);
         fungal_risk = 0;
         fungal_risk = (if 20 \<le> temp \<and> temp \<le> 30 then fungal_risk + 3/10 else fungal_risk);
         fungal_risk = (if humid > 70 then fungal_risk + 4/10 else fungal_risk);
         fungal_risk = (if rain > 5 then fungal_risk + 3/10 else fungal_risk);
         mite_risk = 0;
         mite_risk = (if temp > 27 then mite_risk + 4/10 else mite_risk);
         mite_risk = (if humid < 40 then mite_risk + 3/10 else mite_risk);
         mite_risk = (if rain < 2 then mite_risk + 3/10 else mite_risk);
         thrip_risk = 0;
         thrip_risk = (if 20 \<le> temp \<and> temp \<le> 30 then thrip_risk + 3/10 else thrip_risk);
         thrip_risk = (if 40 \<le> humid \<and> humid \<le> 70 then thrip_risk + 3/10 else thrip_risk);
         thrip_risk = (if rain < 8 then thrip_risk + 4/10 else thrip_risk);
         whitefly_risk = 0;
         whitefly_risk = (if 25 \<le> temp \<and> temp \<le> 32 then whitefly_risk + 4/10 else whitefly_risk);
         whitefly_risk = (if humid > 60 then whitefly_risk + 3/10 else whitefly_risk);
         whitefly_risk = (if rain < 12 then whitefly_risk + 3/10 else whitefly_risk)
     in [(''aphids'', min aphid_risk 1),
         (''fungal_diseases'', min fungal_risk 1),
         (''spider_mites'', min mite_risk 1),
         (''thrips'', min thrip_risk 1),
         (''whiteflies'', min whitefly_risk 1)])"

text \<open>Reading a key of a dictionary; \<open>None\<close> where Python raises \<^verbatim>\<open>KeyError\<close>.\<close>

definition score_of :: "(string \<times> rat) list \<Rightarrow> string \<Rightarrow> rat option" where
  "score_of pest_risks pest = map_of pest_risks pest"

subsection \<open>Python built-ins the engine calls\<close>

text \<open>\<^verbatim>\<open>max\<close> of a sequence keeps the first greatest item and raises on the empty one.\<close>

fun py_max :: "rat list \<Rightarrow> py_error + rat" where
  "py_max [] = Inl ValueError"
| "py_max (x # xs) = Inr (fold max xs x)"

text \<open>
  \<^verbatim>\<open>sorted(xs, key=k, reverse=True)\<close>: the list is reversed, sorted by a stable ascending
  sort and reversed again, which is how the interpreter keeps equal keys in their original
  order.
\<close>

definition sorted_reverse :: "('a \<Rightarrow> 'k::linorder) \<Rightarrow> 'a list \<Rightarrow> 'a list" where
  "sorted_reverse key xs = rev (sort_key key (rev xs))"

text \<open>
  \<^verbatim>\<open>list(dict.fromkeys(xs))\<close>: the keys are inserted one after the other, a key already
  present keeps its place.
\<close>

definition fromkeys :: "'a list \<Rightarrow> 'a list" where
  "fromkeys xs = foldl (\<lambda>d k. if k \<in> set d then d else d @ [k]) [] xs"

text \<open>\<^verbatim>\<open>str.lower\<close> and \<^verbatim>\<open>str.title\<close> on ASCII letters; other bytes are uncased.\<close>

definition upper_letters :: string where
  "upper_letters = ''ABCDEFGHIJKLMNOPQRSTUVWXYZ''"

definition lower_letters :: string where
  "lower_letters = ''abcdefghijklmnopqrstuvwxyz''"

definition lower_char :: "char \<Rightarrow> char" where
  "lower_char c = (case map_of (zip upper_letters lower_letters) c of Some d \<Rightarrow> d | None \<Rightarrow> c)"

definition upper_char :: "char \<Rightarrow> char" where
  "upper_char c = (case map_of (zip lower_letters upper_letters) c of Some d \<Rightarrow> d | None \<Rightarrow> c)"

definition is_cased :: "char \<Rightarrow> bool" where
  "is_cased c = (c \<in> set upper_letters \<or> c \<in> set lower_letters)"

definition lower :: "string \<Rightarrow> string" where
  "lower s = map lower_char s"

fun title_from :: "bool \<Rightarrow> string \<Rightarrow> string" where
  "title_from previous_is_cased [] = []"
| "title_from previous_is_cased (c # cs) =
     (if is_cased c
      then (if previous_is_cased then lower_char c else upper_char c) # title_from True cs
      else c # title_from False cs)"

definition title :: "string \<Rightarrow> string" where
  "title s = title_from False s"

subsection \<open>\<^verbatim>\<open>_determine_overall_risk\<close>\<close>

text \<open>Lines 205 to 209: the three extreme-weather flags and their disjunction.\<close>

definition extreme_weather :: "WeatherData \<Rightarrow> bool" where
  "extreme_weather weather_data =
    (let temp_extreme = (temperature weather_data > 35 \<or> temperature weather_data < 5);
         humidity_extreme = (humidity weather_data > 90 \<or> humidity weather_data < 20);
         rainfall_extreme = (rainfall weather_data > 25)
     in temp_extreme \<or> humidity_extreme \<or> rainfall_extreme)"

text \<open>Lines 209 and 210: the value of \<^verbatim>\<open>max_risk\<close> after the escalation.\<close>

definition escalated :: "rat \<Rightarrow> WeatherData \<Rightarrow> rat" where
  "escalated max_risk weather_data =
    (if extreme_weather weather_data then min (max_risk + 2/10) 1 else max_risk)"

text \<open>Lines 213 to 233: the level, its colour and glyph, and the confidence.\<close>

definition risk_of_max :: "rat \<Rightarrow> overall_risk" where
  "risk_of_max max_risk =
    (if max_risk \<ge> 7/10 then
       \<lparr>level = ''High'', color = ''red'',
        emoji = [CHR 0xC4, CHR 0x9F, CHR 0xC5, CHR 0xB8, CHR 0xE2, CHR 0x80, CHR 0x9D, CHR 0xC2, CHR 0xB4],
        risk_confidence = min max_risk (95/100)\<rparr>
     else if max_risk \<ge> 4/10 then
       \<lparr>level = ''Medium'', color = ''yellow'',
        emoji = [CHR 0xC4, CHR 0x9F, CHR 0xC5, CHR 0xB8, CHR 0xC5, CHR 0xB8, CHR 0xC2, CHR 0xA1],
        risk_confidence = max_risk * (8/10)\<rparr>
     else
       \<lparr>level = ''Low'', color = ''green'',
        emoji = [CHR 0xC4, CHR 0x9F, CHR 0xC5, CHR 0xB8, CHR 0xC5, CHR 0xB8, CHR 0xC2, CHR 0xA2],
        risk_confidence = 1 - max_risk\<rparr>)"

text \<open>
  The whole function. \<^verbatim>\<open>max\<close> raises on an empty dictionary; \<^verbatim>\<open>avg_risk\<close> is computed
  after it and never read.
\<close>

definition determine_overall_risk ::
    "(string \<times> rat) list \<Rightarrow> WeatherData \<Rightarrow> py_error + overall_risk" where
  "determine_overall_risk pest_risks weather_data =
    (case py_max (map snd pest_risks) of
       Inl e \<Rightarrow> Inl e
     | Inr max_risk \<Rightarrow> Inr (risk_of_max (escalated max_risk weather_data)))"

subsection \<open>\<^verbatim>\<open>_identify_primary_threats\<close>\<close>

definition threat_names :: "(string \<times> string) list" where
  "threat_names =
    [(''aphids'', ''Aphid Infestation''),
     (''fungal_diseases'', ''Fungal Diseases''),
     (''spider_mites'', ''Spider Mite Damage''),
     (''thrips'', ''Thrips Damage''),
     (''whiteflies'', ''Whitefly Infestation'')]"

definition threat_name :: "string \<Rightarrow> string" where
  "threat_name threat = (case map_of threat_names threat of Some n \<Rightarrow> n | None \<Rightarrow> title threat)"

definition significant_threats :: "(string \<times> rat) list \<Rightarrow> string list" where
  "significant_threats pest_risks =
    (let sorted_pests = sorted_reverse snd pest_risks
     in map fst (filter (\<lambda>(pest, risk). risk > 3/10) sorted_pests))"

definition identify_primary_threats :: "(string \<times> rat) list \<Rightarrow> string list" where
  "identify_primary_threats pest_risks = map threat_name (take 3 (significant_threats pest_risks))"

subsection \<open>\<^verbatim>\<open>_generate_recommendations\<close>\<close>

text \<open>The \<^verbatim>\<open>if\<close>/\<^verbatim>\<open>elif\<close> chain on the category: what one category appends.\<close>

definition pest_advice :: "string \<Rightarrow> string list" where
  "pest_advice pest =
    (if pest = ''aphids'' then
       [[CHR 0xC4, CHR 0x9F, CHR 0xC5, CHR 0xB8, CHR 0xE2, CHR 0x80, CHR 0xBA] @ '' Scout for aphid colonies on new growth'',
        [CHR 0xC4, CHR 0x9F, CHR 0xC5, CHR 0xB8, CHR 0xC5, CHR 0x92, CHR 0xC2, CHR 0xBF] @ '' Apply insecticidal soap or neem oil spray'',
        [CHR 0xC4, CHR 0x9F, CHR 0xC5, CHR 0xB8] @ '' Release beneficial insects like ladybugs'']
     else if pest = ''fungal_diseases'' then
       [[CHR 0xC4, CHR 0x9F, CHR 0xC5, CHR 0xB8, CHR 0xE2, CHR 0x80, CHR 0x99, CHR 0xC2, CHR 0xA8] @ '' Improve air circulation between plants'',
        [CHR 0xC4, CHR 0x9F, CHR 0xC5, CHR 0xB8, CHR 0xC5, CHR 0x92, CHR 0xC2, CHR 0xBF] @ '' Apply preventive fungicide spray'',
        [CHR 0xC4, CHR 0x9F, CHR 0xC5, CHR 0xB8, CHR 0xE2, CHR 0x80, CHR 0x99, CHR 0xC2, CHR 0xA7] @ '' Avoid overhead watering - use drip irrigation'']
     else if pest = ''spider_mites'' then
       [[CHR 0xC4, CHR 0x9F, CHR 0xC5, CHR 0xB8, CHR 0xE2, CHR 0x80, CHR 0x99, CHR 0xC2, CHR 0xA6] @ '' Increase humidity around plants with misting'',
        [CHR 0xC4, CHR 0x9F, CHR 0xC5, CHR 0xB8, CHR 0xE2, CHR 0x80, CHR 0x9D] @ '' Check undersides of leaves for fine webbing'',
        [CHR 0xC4, CHR 0x9F, CHR 0xC5, CHR 0xB8, CHR 0xC5, CHR 0x92, CHR 0xC2, CHR 0xBF] @ '' Apply miticide or predatory mite release'']
     else if pest = ''thrips'' then
       [[CHR 0xC4, CHR 0x9F, CHR 0xC5, CHR 0xB8, CHR 0xE2, CHR 0x80, CHR 0x99, CHR 0xE2, CHR 0x84, CHR 0xA2] @ '' Use blue sticky traps to monitor populations'',
        [CHR 0xC4, CHR 0x9F, CHR 0xC5, CHR 0xB8, CHR 0xC5, CHR 0x92, CHR 0xC2, CHR 0xBF] @ '' Apply beneficial nematodes to soil'',
        [CHR 0xC4, CHR 0x9F, CHR 0xC5, CHR 0xB8, CHR 0xE2, CHR 0x80, CHR 0x99, CHR 0xC2, CHR 0xA8] @ '' Remove weeds that harbor thrips'']
     else if pest = ''whiteflies'' then
       [[CHR 0xC4, CHR 0x9F, CHR 0xC5, CHR 0xB8, CHR 0xE2, CHR 0x80, CHR 0x99, CHR 0xE2, CHR 0x80, CHR 0xBA] @ '' Install yellow sticky traps'',
        [CHR 0xC4, CHR 0x9F, CHR 0xC5, CHR 0xB8, CHR 0xC5, CHR 0x92, CHR 0xC2, CHR 0xBF] @ '' Apply horticultural oil spray'',
        [CHR 0xC4, CHR 0x9F, CHR 0xC5, CHR 0xB8, CHR 0xC2, CHR 0xA7, CHR 0xC2, CHR 0xB9] @ '' Remove lower leaves touching soil'']
     else [])"

text \<open>The loop over \<^verbatim>\<open>pest_risks.items()\<close>, the list built so far as accumulator.\<close>

fun extend_for_pests :: "string list \<Rightarrow> (string \<times> rat) list \<Rightarrow> string list" where
  "extend_for_pests recs [] = recs"
| "extend_for_pests recs ((pest, risk) # items) =
     extend_for_pests (if risk > 6/10 then recs @ pest_advice pest else recs) items"

definition humidity_advice :: string where
  "humidity_advice = [CHR 0xC4, CHR 0x9F, CHR 0xC5, CHR 0xB8, CHR 0xE2, CHR 0x80, CHR 0x99, CHR 0xC2, CHR 0xA8] @ '' Critical: Increase ventilation to reduce humidity''"

definition heat_advice :: string where
  "heat_advice = [CHR 0xC3, CHR 0xA2, CHR 0xCB, CHR 0x9C, CHR 0xE2, CHR 0x82, CHR 0xAC, CHR 0xC3, CHR 0xAF, CHR 0xC2, CHR 0xB8] @ '' Provide shade cloth during peak heat hours''"

definition rain_advice :: string where
  "rain_advice = [CHR 0xC4, CHR 0x9F, CHR 0xC5, CHR 0xB8, CHR 0xC5, CHR 0x92, CHR 0xC2, CHR 0xA7, CHR 0xC3, CHR 0xAF, CHR 0xC2, CHR 0xB8] @ '' Improve drainage and avoid additional watering''"

definition generate_recommendations :: "(string \<times> rat) list \<Rightarrow> WeatherData \<Rightarrow> string list" where
  "generate_recommendations pest_risks weather_data =
    (let recs = extend_for_pests [] pest_risks;
         recs = (if humidity weather_data > 80 then recs @ [humidity_advice] else recs);
         recs = (if temperature weather_data > 32 then recs @ [heat_advice] else recs);
         recs = (if rainfall weather_data > 15 then recs @ [rain_advice] else recs)
     in take 6 (fromkeys recs))"

subsection \<open>\<^verbatim>\<open>_generate_weather_summary\<close> and \<^verbatim>\<open>_generate_detailed_analysis\<close>\<close>

text \<open>
  The f-strings print numbers with \<^verbatim>\<open>:.1f\<close> and \<^verbatim>\<open>:.0f\<close>. The interpreter's number
  formatting is a parameter \<open>fmt\<close>: \<open>fmt d x\<close> is \<open>x\<close> printed with \<open>d\<close> decimals.
\<close>

type_synonym float_format = "nat \<Rightarrow> rat \<Rightarrow> string"

definition degree_sign :: string where
  "degree_sign = [CHR 0xC3, CHR 0x82, CHR 0xC2, CHR 0xB0]"

definition generate_weather_summary :: "float_format \<Rightarrow> WeatherData \<Rightarrow> string" where
  "generate_weather_summary fmt weather_data =
    (let temp_desc = (if temperature weather_data > 30 then ''hot''
                      else if temperature weather_data > 20 then ''warm'' else ''cool'');
         humidity_desc = (if humidity weather_data > 80 then ''very humid''
                          else if humidity weather_data > 60 then ''humid'' else ''dry'');
         rain_desc = (if rainfall weather_data > 10 then ''with significant rainfall''
                      else if rainfall weather_data > 2 then ''with light rainfall''
                      else ''with no rainfall'')
     in ''Current conditions: '' @ temp_desc @ '' ('' @ fmt 1 (temperature weather_data)
        @ degree_sign @ ''C), '' @ humidity_desc @ '' ('' @ fmt 0 (humidity weather_data)
        @ ''%), '' @ rain_desc @ '' ('' @ fmt 1 (rainfall weather_data) @ ''mm)'')"

definition generate_detailed_analysis ::
    "float_format \<Rightarrow> (string \<times> rat) list \<Rightarrow> WeatherData \<Rightarrow> (string \<times> string) list" where
  "generate_detailed_analysis fmt pest_risks weather_data =
    (let temp = temperature weather_data;
         temperature_text =
           (if temp > 32 then
              ''High temperature ('' @ fmt 1 temp @ degree_sign @ ''C) favors spider mites and heat stress''
            else if temp < 15 then
              ''Cool temperature ('' @ fmt 1 temp @ degree_sign @ ''C) slows pest development but may stress plants''
            else
              ''Moderate temperature ('' @ fmt 1 temp @ degree_sign @ ''C) suitable for most pest activity'');
         humid = humidity weather_data;
         humidity_text =
           (if humid > 75 then
              ''High humidity ('' @ fmt 0 humid @ ''%) creates ideal conditions for fungal diseases''
            else if humid < 40 then
              ''Low humidity ('' @ fmt 0 humid @ ''%) favors spider mites and thrips''
            else
              ''Moderate humidity ('' @ fmt 0 humid @ ''%) - balanced conditions'');
         rain = rainfall weather_data;
         rainfall_text =
           (if rain > 15 then
              ''Heavy rainfall ('' @ fmt 1 rain @ ''mm) increases fungal disease pressure''
            else if rain < 2 then
              ''Dry conditions ('' @ fmt 1 rain @ ''mm) favor drought-stress pests''
            else
              ''Moderate moisture ('' @ fmt 1 rain @ ''mm) - good for plant health'')
     in [(''temperature'', temperature_text),
         (''humidity'', humidity_text),
         (''rainfall'', rainfall_text)])"

subsection \<open>\<^verbatim>\<open>assess_pest_risk\<close>\<close>

definition assess_pest_risk :: "float_format \<Rightarrow> WeatherData \<Rightarrow> py_error + PestRiskAssessment" where
  "assess_pest_risk fmt weather_data =
    (let pest_risks = calculate_individual_pest_risks weather_data
     in case determine_overall_risk pest_risks weather_data of
          Inl e \<Rightarrow> Inl e
        | Inr overall \<Rightarrow>
            (let recs = generate_recommendations pest_risks weather_data;
                 threats = identify_primary_threats pest_risks
             in Inr \<lparr>risk_level = level overall,
                     risk_color = color overall,
                     risk_emoji = emoji overall,
                     confidence = risk_confidence overall,
                     primary_threats = threats,
                     recommendations = recs,
                     weather_summary = generate_weather_summary fmt weather_data,
                     detailed_analysis = generate_detailed_analysis fmt pest_risks weather_data\<rparr>))"

subsection \<open>\<^verbatim>\<open>get_weather_data\<close> and \<^verbatim>\<open>_generate_mock_weather\<close>\<close>

text \<open>
  What the engine reads from outside: the outcome of the HTTP request for a location and a
  key, the clock, the draw of \<^verbatim>\<open>random.choice\<close>, and the number formatting. A request
  either raises (no route, timeout, ...) or gives a status code and a body; the body is
  \<open>None\<close> when decoding it or reading \<^verbatim>\<open>data['main']['temp']\<close> or
  \<^verbatim>\<open>data['main']['humidity']\<close> raises, and \<open>rain_1h\<close> is \<open>None\<close> when the answer has no
  \<^verbatim>\<open>rain\<close> entry or no \<^verbatim>\<open>1h\<close> in it. The values that are read are numbers. What the
  handler prints is not part of the state.
\<close>

record api_body =
  main_temp :: rat
  main_humidity :: rat
  rain_1h :: "rat option"

datatype http_reply = Request_raises | Reply int "api_body option"

record environment =
  http_get :: "string \<Rightarrow> string \<Rightarrow> http_reply"
  now :: int
  random_draw :: nat
  float_fmt :: float_format

definition scenarios :: "int \<Rightarrow> WeatherData list" where
  "scenarios t =
    [\<lparr>temperature = 22, humidity = 55, rainfall = 2, timestamp = t\<rparr>,
     \<lparr>temperature = 28, humidity = 68, rainfall = 8, timestamp = t\<rparr>,
     \<lparr>temperature = 34, humidity = 82, rainfall = 18, timestamp = t\<rparr>,
     \<lparr>temperature = 26, humidity = 45, rainfall = 0, timestamp = t\<rparr>,
     \<lparr>temperature = 18, humidity = 85, rainfall = 15, timestamp = t\<rparr>]"

text \<open>\<^verbatim>\<open>random.choice(seq)\<close> is \<^verbatim>\<open>seq[i]\<close> for a drawn index below \<^verbatim>\<open>len(seq)\<close>.\<close>

definition generate_mock_weather :: "environment \<Rightarrow> WeatherData" where
  "generate_mock_weather env =
    (let seq = scenarios (now env) in seq ! (random_draw env mod length seq))"

definition get_weather_data :: "environment \<Rightarrow> string option \<Rightarrow> string \<Rightarrow> WeatherData" where
  "get_weather_data env api_key location =
    (case api_key of
       None \<Rightarrow> generate_mock_weather env
     | Some key \<Rightarrow>
         if key = [] then generate_mock_weather env
         else (case http_get env location key of
                 Request_raises \<Rightarrow> generate_mock_weather env
               | Reply status_code body \<Rightarrow>
                   if status_code = 200 then
                     (case body of
                        None \<Rightarrow> generate_mock_weather env
                      | Some data \<Rightarrow>
                          \<lparr>temperature = main_temp data,
                           humidity = main_humidity data,
                           rainfall = (case rain_1h data of None \<Rightarrow> 0 | Some r \<Rightarrow> r),
                           timestamp = now env\<rparr>)
                   else generate_mock_weather env))"

subsection \<open>\<^verbatim>\<open>get_pest_risk_assessment\<close>\<close>

definition unknown_recommendations :: "string list" where
  "unknown_recommendations =
    [[CHR 0xC3, CHR 0xA2, CHR 0xE2, CHR 0x80, CHR 0x9C] @ '' Unable to provide pest risk due to unclear image.'',
     [CHR 0xC4, CHR 0x9F, CHR 0xC5, CHR 0xB8, CHR 0xE2, CHR 0x80, CHR 0x9C, CHR 0xC2, CHR 0xB8] @ '' Retake a clearer photo under good lighting.'',
     [CHR 0xC4, CHR 0x9F, CHR 0xC5, CHR 0xB8, CHR 0xC5, CHR 0x92, CHR 0xC2, CHR 0xB1] @ '' Monitor your plant and try again.'',
     [CHR 0xC4, CHR 0x9F, CHR 0xC5, CHR 0xB8, CHR 0xE2, CHR 0x80, CHR 0x9D] @ '' If symptoms persist, consult a plant expert.'']"

text \<open>The test \<^verbatim>\<open>disease and disease.lower() == "unknown"\<close>.\<close>

definition is_unknown :: "string option \<Rightarrow> bool" where
  "is_unknown disease =
    (case disease of None \<Rightarrow> False | Some d \<Rightarrow> d \<noteq> [] \<and> lower d = ''unknown'')"

definition get_pest_risk_assessment ::
    "environment \<Rightarrow> string \<Rightarrow> string option \<Rightarrow> string option \<Rightarrow> py_error + PestRiskAssessment" where
  "get_pest_risk_assessment env location api_key disease =
    (let weather_data = get_weather_data env api_key location
     in case assess_pest_risk (float_fmt env) weather_data of
          Inl e \<Rightarrow> Inl e
        | Inr assessment \<Rightarrow>
            if is_unknown disease then
              Inr (assessment
                    \<lparr>risk_level := ''Unknown'',
                     risk_color := ''black'',
                     risk_emoji := [CHR 0xC3, CHR 0xA2, CHR 0xC5, CHR 0xA1, CHR 0xC2, CHR 0xAB],
                     confidence := 0,
                     primary_threats := [''Not detected (image unknown)''],
                     recommendations := unknown_recommendations,
                     weather_summary := ''No valid assessment (image unrecognized)'',
                     detailed_analysis := []\<rparr>)
            else Inr assessment)"

subsection \<open>The rule table of the specification\<close>

text \<open>
  The table of section 4.2 as data: for each category its conditions, each a predicate on
  the reading with its weight. The score the table prescribes is the sum of the weights of
  the satisfied conditions, clamped to the unit interval.
\<close>

type_synonym rule = "(WeatherData \<Rightarrow> bool) \<times> rat"

definition rule_table :: "(string \<times> rule list) list" where
  "rule_table =
    [(''aphids'',
        [(\<lambda>r. 15 \<le> temperature r \<and> temperature r \<le> 25, 4/10),
         (\<lambda>r. humidity r > 50, 3/10),
         (\<lambda>r. rainfall r < 10, 3/10)]),
     (''fungal_diseases'',
        [(\<lambda>r. 20 \<le> temperature r \<and> temperature r \<le> 30, 3/10),
         (\<lambda>r. humidity r > 70, 4/10),
         (\<lambda>r. rainfall r > 5, 3/10)]),
     (''spider_mites'',
        [(\<lambda>r. temperature r > 27, 4/10),
         (\<lambda>r. humidity r < 40, 3/10),
         (\<lambda>r. rainfall r < 2, 3/10)]),
     (''thrips'',
        [(\<lambda>r. 20 \<le> temperature r \<and> temperature r \<le> 30, 3/10),
         (\<lambda>r. 40 \<le> humidity r \<and> humidity r \<le> 70, 3/10),
         (\<lambda>r. rainfall r < 8, 4/10)]),
     (''whiteflies'',
        [(\<lambda>r. 25 \<le> temperature r \<and> temperature r \<le> 32, 4/10),
         (\<lambda>r. humidity r > 60, 3/10),
         (\<lambda>r. rainfall r < 12, 3/10)])]"

definition satisfied_weight :: "WeatherData \<Rightarrow> rule list \<Rightarrow> rat" where
  "satisfied_weight r rules = sum_list (map snd (filter (\<lambda>(cond, weight). cond r) rules))"

definition clamp01 :: "rat \<Rightarrow> rat" where
  "clamp01 x = max 0 (min x 1)"

definition table_scores :: "WeatherData \<Rightarrow> (string \<times> rat) list" where
  "table_scores r = map (\<lambda>(category, rules). (category, clamp01 (satisfied_weight r rules))) rule_table"

subsection \<open>The other notions of the specification\<close>

text \<open>
  Section 4.4, threats: the categories sorted by score, greatest first, equal scores in
  the order of the mapping, of which those with a score above 0.3 are kept.
\<close>

definition ranked :: "(string \<times> rat) list \<Rightarrow> (string \<times> rat) list" where
  "ranked scores = filter (\<lambda>x. snd x > 3/10) (sort_key (\<lambda>x. - snd x) scores)"

text \<open>Section 4.4, recommendations: removing duplicates, the first occurrence staying.\<close>

function dedup_first :: "'a list \<Rightarrow> 'a list" where
  "dedup_first [] = []"
| "dedup_first (x # xs) = x # dedup_first (removeAll x xs)"
  by pat_completeness auto
termination
  by (relation "measure length") (auto simp: less_Suc_eq_le length_removeAll_less_eq)

definition weather_advisories :: "WeatherData \<Rightarrow> string list" where
  "weather_advisories r =
    (if humidity r > 80 then [humidity_advice] else []) @
    (if temperature r > 32 then [heat_advice] else []) @
    (if rainfall r > 15 then [rain_advice] else [])"

definition recommendations_spec :: "(string \<times> rat) list \<Rightarrow> WeatherData \<Rightarrow> string list" where
  "recommendations_spec scores r =
    take 6 (dedup_first
      (concat (map (\<lambda>(category, score). if score > 6/10 then pest_advice category else []) scores)
       @ weather_advisories r))"


text \<open>
  Section 3, the shape of an assessment: one of the four levels, a confidence in [0,1], at
  most three threats, at most six recommendations without repetition, and an analysis
  that is empty or has the three factors.
\<close>

definition well_formed :: "PestRiskAssessment \<Rightarrow> bool" where
  "well_formed a =
    (risk_level a \<in> {''Low'', ''Medium'', ''High'', ''Unknown''} \<and>
     0 \<le> confidence a \<and> confidence a \<le> 1 \<and>
     length (primary_threats a) \<le> 3 \<and>
     length (recommendations a) \<le> 6 \<and> distinct (recommendations a) \<and>
     (detailed_analysis a = [] \<or>
      map fst (detailed_analysis a) = [''temperature'', ''humidity'', ''rainfall'']))"

text \<open>The assessment that replaces the weather-derived one for an unrecognised image.\<close>

definition unknown_assessment :: PestRiskAssessment where
  "unknown_assessment =
    \<lparr>risk_level = ''Unknown'',
     risk_color = ''black'',
     risk_emoji = [CHR 0xC3, CHR 0xA2, CHR 0xC5, CHR 0xA1, CHR 0xC2, CHR 0xAB],
     confidence = 0,
     primary_threats = [''Not detected (image unknown)''],
     recommendations = unknown_recommendations,
     weather_summary = ''No valid assessment (image unrecognized)'',
     detailed_analysis = []\<rparr>"

subsection \<open>An environment without network\<close>

text \<open>
  A concrete environment on which the engine is evaluated below: every request raises, the
  clock reads 0, the random draw is 4 and numbers are printed as the empty string.
\<close>

definition no_network :: "string \<Rightarrow> string \<Rightarrow> http_reply" where
  "no_network location key = Request_raises"

definition blank_format :: float_format where
  "blank_format d x = []"

definition offline :: environment where
  "offline = \<lparr>http_get = no_network, now = 0, random_draw = 4, float_fmt = blank_format\<rparr>"

subsection \<open>A weather source that answers out of range\<close>



section \<open>Properties\<close>

subsection \<open>Scoring\<close>

lemma calculate_keys:
  "map fst (calculate_individual_pest_risks w) =
     [''aphids'', ''fungal_diseases'', ''spider_mites'', ''thrips'', ''whiteflies'']"
  by (simp add: calculate_individual_pest_risks_def Let_def)

lemma calculate_eq_table: "calculate_individual_pest_risks w = table_scores w"
  by (simp add: calculate_individual_pest_risks_def table_scores_def rule_table_def
      satisfied_weight_def clamp01_def Let_def)

lemma table_scores_bounds:
  "(c, s) \<in> set (table_scores w) \<Longrightarrow> 0 \<le> s \<and> s \<le> 1"
  by (auto simp: table_scores_def clamp01_def)

text \<open>
  C1. For every weather reading the scores computed by the engine are those of the rule
  table of section 4.2 (for each of the five categories, in their fixed order, the sum of
  the weights of the satisfied conditions, clamped to [0,1]), and every score lies in
  [0,1], whatever the values of the reading.
\<close>

theorem C1_scores_follow_rule_table:
  "calculate_individual_pest_risks w = table_scores w \<and>
   map fst (calculate_individual_pest_risks w) =
     [''aphids'', ''fungal_diseases'', ''spider_mites'', ''thrips'', ''whiteflies''] \<and>
   (\<forall>s \<in> snd ` set (calculate_individual_pest_risks w). 0 \<le> s \<and> s \<le> 1)"
proof (intro conjI ballI)
  show "calculate_individual_pest_risks w = table_scores w"
    by (rule calculate_eq_table)
  show "map fst (calculate_individual_pest_risks w) =
     [''aphids'', ''fungal_diseases'', ''spider_mites'', ''thrips'', ''whiteflies'']"
    by (rule calculate_keys)
next
  fix s assume "s \<in> snd ` set (calculate_individual_pest_risks w)"
  then obtain c where "(c, s) \<in> set (table_scores w)"
    by (auto simp: calculate_eq_table)
  then show "0 \<le> s" by (simp add: table_scores_bounds)
next
  fix s assume "s \<in> snd ` set (calculate_individual_pest_risks w)"
  then obtain c where "(c, s) \<in> set (table_scores w)"
    by (auto simp: calculate_eq_table)
  then show "s \<le> 1" by (simp add: table_scores_bounds)
qed

theorem C1_scores_follow_rule_table_witness:
  "calculate_individual_pest_risks
     \<lparr>temperature = 22, humidity = 150, rainfall = -3, timestamp = 0\<rparr>
   = [(''aphids'', 1), (''fungal_diseases'', 7/10), (''spider_mites'', 3/10),
      (''thrips'', 7/10), (''whiteflies'', 6/10)] \<and>
   (7/10 :: rat) \<in> snd ` set (calculate_individual_pest_risks
        \<lparr>temperature = 22, humidity = 150, rainfall = -3, timestamp = 0\<rparr>) \<and>
   (0 :: rat) \<le> 7/10 \<and> (7/10 :: rat) \<le> 1"
  using C1_scores_follow_rule_table
    [of "\<lparr>temperature = 22, humidity = 150, rainfall = -3, timestamp = 0\<rparr>"]
  by (simp add: table_scores_def rule_table_def satisfied_weight_def clamp01_def)

subsection \<open>Aggregation\<close>

lemma py_max_Max: "xs \<noteq> [] \<Longrightarrow> py_max xs = Inr (Max (set xs))"
proof (cases xs)
  case Nil
  assume "xs \<noteq> []"
  with Nil show ?thesis by simp
next
  case (Cons a list)
  show ?thesis unfolding Cons py_max.simps Max.set_eq_fold ..
qed

lemma determine_overall_risk_eq:
  "pest_risks \<noteq> [] \<Longrightarrow>
   determine_overall_risk pest_risks w =
     Inr (risk_of_max (escalated (Max (snd ` set pest_risks)) w))"
  by (simp add: determine_overall_risk_def py_max_Max)

text \<open>
  C2. For every non-empty score mapping and every reading, the verdict is read off the
  maximum score after escalation, \<open>m\<close>, at exact boundaries and in this order: \<open>m \<ge> 0.7\<close>
  gives High with confidence \<open>min m 0.95\<close>; otherwise \<open>m \<ge> 0.4\<close> gives Medium with
  confidence \<open>0.8 m\<close>; otherwise Low with confidence \<open>1 - m\<close>. In particular 0.7 is High,
  0.6999 Medium, 0.4 Medium and 0.3999 Low.
\<close>

theorem C2_verdict_thresholds:
  assumes "pest_risks \<noteq> []"
  shows "(\<exists>v. determine_overall_risk pest_risks w = Inr v \<and>
      (let m = escalated (Max (snd ` set pest_risks)) w in
         (7/10 \<le> m \<longrightarrow> level v = ''High'' \<and> risk_confidence v = min m (95/100)) \<and>
         (4/10 \<le> m \<and> m < 7/10 \<longrightarrow> level v = ''Medium'' \<and> risk_confidence v = m * (8/10)) \<and>
         (m < 4/10 \<longrightarrow> level v = ''Low'' \<and> risk_confidence v = 1 - m))) \<and>
    level (risk_of_max (7/10)) = ''High'' \<and>
    level (risk_of_max (6999/10000)) = ''Medium'' \<and>
    level (risk_of_max (4/10)) = ''Medium'' \<and>
    level (risk_of_max (3999/10000)) = ''Low''"
  using assms by (simp add: determine_overall_risk_eq risk_of_max_def Let_def)

theorem C2_verdict_thresholds_witness:
  "(\<exists>v. determine_overall_risk [(''aphids'', 7/10), (''thrips'', 3/10)]
          \<lparr>temperature = 22, humidity = 55, rainfall = 2, timestamp = 0\<rparr> = Inr v \<and>
        level v = ''High'' \<and> risk_confidence v = 7/10) \<and>
   (\<exists>v. determine_overall_risk [(''aphids'', 6999/10000), (''thrips'', 3/10)]
          \<lparr>temperature = 22, humidity = 55, rainfall = 2, timestamp = 0\<rparr> = Inr v \<and>
        level v = ''Medium'' \<and> risk_confidence v = 6999/12500) \<and>
   (\<exists>v. determine_overall_risk [(''aphids'', 4/10), (''thrips'', 3/10)]
          \<lparr>temperature = 22, humidity = 55, rainfall = 2, timestamp = 0\<rparr> = Inr v \<and>
        level v = ''Medium'' \<and> risk_confidence v = 8/25) \<and>
   (\<exists>v. determine_overall_risk [(''aphids'', 3999/10000), (''thrips'', 3/10)]
          \<lparr>temperature = 22, humidity = 55, rainfall = 2, timestamp = 0\<rparr> = Inr v \<and>
        level v = ''Low'' \<and> risk_confidence v = 6001/10000)"
  using
    C2_verdict_thresholds [of "[(''aphids'', 7/10), (''thrips'', 3/10)]"
      "\<lparr>temperature = 22, humidity = 55, rainfall = 2, timestamp = 0\<rparr>"]
    C2_verdict_thresholds [of "[(''aphids'', 6999/10000), (''thrips'', 3/10)]"
      "\<lparr>temperature = 22, humidity = 55, rainfall = 2, timestamp = 0\<rparr>"]
    C2_verdict_thresholds [of "[(''aphids'', 4/10), (''thrips'', 3/10)]"
      "\<lparr>temperature = 22, humidity = 55, rainfall = 2, timestamp = 0\<rparr>"]
    C2_verdict_thresholds [of "[(''aphids'', 3999/10000), (''thrips'', 3/10)]"
      "\<lparr>temperature = 22, humidity = 55, rainfall = 2, timestamp = 0\<rparr>"]
  by (simp add: determine_overall_risk_def escalated_def extreme_weather_def risk_of_max_def)

text \<open>
  C3. For every non-empty score mapping and every reading, the verdict is that of the
  maximum score after one escalation step: when temperature is above 35 or below 5, or
  humidity above 90 or below 20, or rainfall above 25, the maximum \<open>m\<close> becomes
  \<open>min (m + 0.2) 1\<close>, however many of these hold at once, and otherwise it stays \<open>m\<close>.
\<close>

theorem C3_escalation_once:
  assumes "pest_risks \<noteq> []"
  shows "determine_overall_risk pest_risks w =
      Inr (risk_of_max (escalated (Max (snd ` set pest_risks)) w)) \<and>
    (\<forall>m. escalated m w =
       (if temperature w > 35 \<or> temperature w < 5 \<or>
           humidity w > 90 \<or> humidity w < 20 \<or> rainfall w > 25
        then min (m + 2/10) 1 else m))"
  using assms by (simp add: determine_overall_risk_eq escalated_def extreme_weather_def)

theorem C3_escalation_once_witness:
  "determine_overall_risk [(''aphids'', 3/10), (''thrips'', 1/10)]
       \<lparr>temperature = 40, humidity = 95, rainfall = 30, timestamp = 0\<rparr>
     = Inr (risk_of_max (5/10)) \<and>
   escalated (9/10) \<lparr>temperature = 40, humidity = 95, rainfall = 30, timestamp = 0\<rparr> = 1 \<and>
   determine_overall_risk [(''aphids'', 3/10), (''thrips'', 1/10)]
       \<lparr>temperature = 22, humidity = 55, rainfall = 2, timestamp = 0\<rparr>
     = Inr (risk_of_max (3/10))"
  using
    C3_escalation_once [of "[(''aphids'', 3/10), (''thrips'', 1/10)]"
      "\<lparr>temperature = 40, humidity = 95, rainfall = 30, timestamp = 0\<rparr>"]
    C3_escalation_once [of "[(''aphids'', 3/10), (''thrips'', 1/10)]"
      "\<lparr>temperature = 22, humidity = 55, rainfall = 2, timestamp = 0\<rparr>"]
  by simp

subsection \<open>Primary threats\<close>

text \<open>The model of \<^verbatim>\<open>sorted(..., reverse=True)\<close> is the stable sort on the negated score.\<close>

lemma sorted_map_uminus_rev: "sorted (map (\<lambda>x. - f x) (rev xs)) = sorted (map (f :: 'a \<Rightarrow> rat) xs)"
  by (induction xs) (auto simp: sorted_append)

lemma sorted_reverse_eq: "sorted_reverse snd (s :: (string \<times> rat) list) = sort_key (\<lambda>x. - snd x) s"
proof -
  let ?ys = "rev (sort_key snd (rev s))"
  have "sort_key (\<lambda>x. - snd x) s = ?ys"
  proof (rule properties_for_sort_key)
    show "mset ?ys = mset s" by simp
    show "sorted (map (\<lambda>x. - snd x) ?ys)"
      by (simp only: sorted_map_uminus_rev sorted_sort_key)
    show "\<And>k. k \<in> set ?ys \<Longrightarrow> filter (\<lambda>x. - snd k = - snd x) ?ys = filter (\<lambda>x. - snd k = - snd x) s"
    proof -
      fix k
      have "filter (\<lambda>x. snd x = snd k) ?ys = rev (filter (\<lambda>x. snd x = snd k) (sort_key snd (rev s)))"
        by (simp add: rev_filter)
      also have "\<dots> = rev (filter (\<lambda>x. snd x = snd k) (rev s))"
        by (simp only: sort_key_stable)
      also have "\<dots> = filter (\<lambda>x. snd x = snd k) s"
        by (simp add: rev_filter)
      finally show "filter (\<lambda>x. - snd k = - snd x) ?ys = filter (\<lambda>x. - snd k = - snd x) s"
        by (simp add: eq_commute)
    qed
  qed
  then show ?thesis by (simp add: sorted_reverse_def)
qed

lemma ranked_eq: "significant_threats s = map fst (ranked s)"
  by (simp add: significant_threats_def ranked_def sorted_reverse_eq case_prod_unfold)

lemma ranked_sorted: "sorted_wrt (\<lambda>a b. snd a \<ge> snd b) (ranked s)"
proof -
  have "sorted (map (\<lambda>x. - snd x) (sort_key (\<lambda>x. - snd x) s))" by (rule sorted_sort_key)
  then have "sorted_wrt (\<lambda>a b. snd a \<ge> snd b) (sort_key (\<lambda>x. - snd x) s)"
    by (simp add: sorted_map sorted_wrt_map)
  then show ?thesis unfolding ranked_def by (rule sorted_wrt_filter)
qed

lemma ranked_stable: "filter (\<lambda>x. snd x = k) (ranked s) = filter (\<lambda>x. snd x = k \<and> k > 3/10) s"
proof -
  have "filter (\<lambda>x. snd x = k) (ranked s) = filter (\<lambda>x. snd x > 3/10) (filter (\<lambda>x. - snd x = - k) (sort_key (\<lambda>x. - snd x) s))"
    by (simp add: ranked_def conj_commute)
  also have "\<dots> = filter (\<lambda>x. snd x > 3/10) (filter (\<lambda>x. - snd x = - k) s)"
    by (simp only: sort_key_stable)
  also have "\<dots> = filter (\<lambda>x. snd x = k \<and> k > 3/10) s"
    by (auto intro: filter_cong)
  finally show ?thesis .
qed

lemma threat_names_five: "map threat_name [''aphids'', ''fungal_diseases'', ''spider_mites'', ''thrips'', ''whiteflies'']
  = [''Aphid Infestation'', ''Fungal Diseases'', ''Spider Mite Damage'', ''Thrips Damage'', ''Whitefly Infestation'']"
  by (simp add: threat_name_def threat_names_def)

text \<open>
  C5. For every score mapping the primary threats are the display names of the first three
  entries of the ranking, so at most three; the ranking holds exactly the categories whose
  score is strictly above 0.3, by descending score, and categories of equal score stand
  in the order in which the mapping declares them.
\<close>

theorem C5_primary_threats:
  "identify_primary_threats scores = take 3 (map (threat_name \<circ> fst) (ranked scores)) \<and>
   length (identify_primary_threats scores) \<le> 3 \<and>
   set (ranked scores) = {x \<in> set scores. snd x > 3/10} \<and>
   sorted_wrt (\<lambda>a b. snd a \<ge> snd b) (ranked scores) \<and>
   (\<forall>k. filter (\<lambda>x. snd x = k) (ranked scores) = filter (\<lambda>x. snd x = k \<and> k > 3/10) scores) \<and>
   map threat_name [''aphids'', ''fungal_diseases'', ''spider_mites'', ''thrips'', ''whiteflies'']
     = [''Aphid Infestation'', ''Fungal Diseases'', ''Spider Mite Damage'', ''Thrips Damage'',
        ''Whitefly Infestation'']"
proof (intro conjI allI)
  show "identify_primary_threats scores = take 3 (map (threat_name \<circ> fst) (ranked scores))"
    by (simp add: identify_primary_threats_def ranked_eq take_map)
  show "length (identify_primary_threats scores) \<le> 3"
    by (simp add: identify_primary_threats_def)
  show "set (ranked scores) = {x \<in> set scores. snd x > 3/10}"
    by (auto simp: ranked_def)
  show "sorted_wrt (\<lambda>a b. snd a \<ge> snd b) (ranked scores)"
    by (rule ranked_sorted)
  show "filter (\<lambda>x. snd x = k) (ranked scores) = filter (\<lambda>x. snd x = k \<and> k > 3/10) scores" for k
    by (rule ranked_stable)
  show "map threat_name [''aphids'', ''fungal_diseases'', ''spider_mites'', ''thrips'', ''whiteflies'']
     = [''Aphid Infestation'', ''Fungal Diseases'', ''Spider Mite Damage'', ''Thrips Damage'',
        ''Whitefly Infestation'']"
    by (rule threat_names_five)
qed

theorem C5_primary_threats_witness:
  "identify_primary_threats
     [(''aphids'', 3/10), (''fungal_diseases'', 7/10), (''spider_mites'', 4/10),
      (''thrips'', 7/10), (''whiteflies'', 1)]
   = [''Whitefly Infestation'', ''Fungal Diseases'', ''Thrips Damage'']"
  using C5_primary_threats [of "[(''aphids'', 3/10), (''fungal_diseases'', 7/10), (''spider_mites'', 4/10),
      (''thrips'', 7/10), (''whiteflies'', 1)]"]
  by (simp add: ranked_def threat_name_def threat_names_def)

subsection \<open>Recommendations\<close>

lemma fromkeys_aux:
  "distinct acc \<Longrightarrow> foldl (\<lambda>d k. if k \<in> set d then d else d @ [k]) acc xs
     = acc @ dedup_first (filter (\<lambda>x. x \<notin> set acc) xs)"
proof (induction xs arbitrary: acc)
  case Nil
  then show ?case by simp
next
  case (Cons x xs)
  show ?case
  proof (cases "x \<in> set acc")
    case True
    with Cons show ?thesis by simp
  next
    case False
    have eq: "removeAll x (filter (\<lambda>y. y \<notin> set acc) xs) = filter (\<lambda>y. y \<notin> set (acc @ [x])) xs"
      by (induction xs) auto
    from False Cons.prems have "distinct (acc @ [x])" by simp
    from Cons.IH [OF this] False show ?thesis by (simp add: eq)
  qed
qed

lemma fromkeys_dedup_first: "fromkeys xs = dedup_first xs"
  using fromkeys_aux [of "[]" xs] by (simp add: fromkeys_def)

lemma set_dedup_first: "set (dedup_first xs) = set xs"
  by (induction xs rule: dedup_first.induct) auto

lemma distinct_dedup_first: "distinct (dedup_first xs)"
  by (induction xs rule: dedup_first.induct) (auto simp: set_dedup_first)

lemma extend_for_pests_concat:
  "extend_for_pests recs items =
     recs @ concat (map (\<lambda>(category, score). if score > 6/10 then pest_advice category else []) items)"
  by (induction recs items rule: extend_for_pests.induct) auto

lemma recs_eq: "generate_recommendations s w = recommendations_spec s w"
  by (simp add: generate_recommendations_def recommendations_spec_def weather_advisories_def
      extend_for_pests_concat fromkeys_dedup_first Let_def)

lemma recs_len: "length (recommendations_spec s w) \<le> 6"
  by (simp add: recommendations_spec_def)

lemma recs_distinct: "distinct (recommendations_spec s w)"
  unfolding recommendations_spec_def by (rule distinct_take) (rule distinct_dedup_first)

lemma advice_len: "\<forall>c \<in> set  [''aphids'', ''fungal_diseases'', ''spider_mites'', ''thrips'', ''whiteflies'']. length (pest_advice c) = 3"
  by (simp add: pest_advice_def)

text \<open>
  C6. For every score mapping and reading the recommendations are: the advisory sets
  (three strings each) of the categories scoring above 0.6, in the order of the mapping,
  which for the engine's own scores is the fixed enumeration of the categories; then the
  advisories for humidity above 80, temperature above 32 and rainfall above 15, each on
  its own; duplicates removed with the first occurrence kept; the first six of the result.
  So there are never more than six and none occurs twice.
\<close>

theorem C6_recommendations:
  "generate_recommendations scores w = recommendations_spec scores w \<and>
   length (generate_recommendations scores w) \<le> 6 \<and>
   distinct (generate_recommendations scores w) \<and>
   (\<forall>c \<in> set [''aphids'', ''fungal_diseases'', ''spider_mites'', ''thrips'', ''whiteflies''].
      length (pest_advice c) = 3) \<and>
   map fst (calculate_individual_pest_risks w) =
     [''aphids'', ''fungal_diseases'', ''spider_mites'', ''thrips'', ''whiteflies'']"
  using advice_len calculate_keys [of w]
  by (simp only: recs_eq recs_len recs_distinct simp_thms)

theorem C6_recommendations_witness:
  "generate_recommendations
      [(''aphids'', 7/10), (''fungal_diseases'', 7/10), (''spider_mites'', 0), (''thrips'', 0), (''whiteflies'', 3/10)]
      \<lparr>temperature = 18, humidity = 85, rainfall = 15, timestamp = 0\<rparr>
    = pest_advice ''aphids'' @ pest_advice ''fungal_diseases'' \<and>
   generate_recommendations
      [(''aphids'', 3/10), (''fungal_diseases'', 7/10), (''spider_mites'', 4/10), (''thrips'', 0), (''whiteflies'', 3/10)]
      \<lparr>temperature = 34, humidity = 82, rainfall = 18, timestamp = 0\<rparr>
    = pest_advice ''fungal_diseases'' @ [humidity_advice, heat_advice, rain_advice] \<and>
   length (pest_advice ''aphids'') = 3 \<and> length (pest_advice ''whiteflies'') = 3"
  using C6_recommendations [of "[(''aphids'', 7/10), (''fungal_diseases'', 7/10), (''spider_mites'', 0), (''thrips'', 0), (''whiteflies'', 3/10)]"
      "\<lparr>temperature = 18, humidity = 85, rainfall = 15, timestamp = 0\<rparr>"]
    C6_recommendations [of "[(''aphids'', 3/10), (''fungal_diseases'', 7/10), (''spider_mites'', 4/10), (''thrips'', 0), (''whiteflies'', 3/10)]"
      "\<lparr>temperature = 34, humidity = 82, rainfall = 18, timestamp = 0\<rparr>"]
  by (simp add: recommendations_spec_def weather_advisories_def pest_advice_def humidity_advice_def heat_advice_def rain_advice_def)

subsection \<open>Readings outside the valid ranges\<close>






lemma calc_nonempty: "calculate_individual_pest_risks w \<noteq> []"
  using calculate_keys [of w] by auto

lemma assess_total: "\<exists>a. assess_pest_risk fmt w = Inr a"
  by (simp add: assess_pest_risk_def determine_overall_risk_def py_max_Max calc_nonempty Let_def)




subsection \<open>The least maximum score\<close>

lemma score_fungal:
  "score_of (calculate_individual_pest_risks w) ''fungal_diseases'' =
     Some (clamp01 (satisfied_weight w
        [(\<lambda>r. 20 \<le> temperature r \<and> temperature r \<le> 30, 3/10),
         (\<lambda>r. humidity r > 70, 4/10),
         (\<lambda>r. rainfall r > 5, 3/10)]))"
  by (simp add: calculate_eq_table table_scores_def rule_table_def score_of_def)

lemma score_whiteflies:
  "score_of (calculate_individual_pest_risks w) ''whiteflies'' =
     Some (clamp01 (satisfied_weight w
        [(\<lambda>r. 25 \<le> temperature r \<and> temperature r \<le> 32, 4/10),
         (\<lambda>r. humidity r > 60, 3/10),
         (\<lambda>r. rainfall r < 12, 3/10)]))"
  by (simp add: calculate_eq_table table_scores_def rule_table_def score_of_def)

lemma fungal_ge: "rainfall w > 5 \<Longrightarrow> 3/10 \<le> clamp01 (satisfied_weight w
        [(\<lambda>r. 20 \<le> temperature r \<and> temperature r \<le> 30, 3/10),
         (\<lambda>r. humidity r > 70, 4/10),
         (\<lambda>r. rainfall r > 5, 3/10)])"
  by (simp add: satisfied_weight_def clamp01_def)

lemma whiteflies_ge: "rainfall w < 12 \<Longrightarrow> 3/10 \<le> clamp01 (satisfied_weight w
        [(\<lambda>r. 25 \<le> temperature r \<and> temperature r \<le> 32, 4/10),
         (\<lambda>r. humidity r > 60, 3/10),
         (\<lambda>r. rainfall r < 12, 3/10)])"
  by (simp add: satisfied_weight_def clamp01_def)

lemma score_le_Max:
  assumes "score_of s c = Some x"
  shows "x \<le> Max (snd ` set s)"
proof -
  from assms have "(c, x) \<in> set s" by (simp add: score_of_def map_of_SomeD)
  then have "x \<in> snd ` set s" by force
  then show ?thesis by simp
qed

lemma calc_max_ge: "3/10 \<le> Max (snd ` set (calculate_individual_pest_risks w))"
proof (cases "rainfall w > 5")
  case True
  from fungal_ge [OF True] score_le_Max [OF score_fungal [of w]] show ?thesis by linarith
next
  case False
  then have "rainfall w < 12" by simp
  from whiteflies_ge [OF this] score_le_Max [OF score_whiteflies [of w]] show ?thesis by linarith
qed

text \<open>
  C10. Every rainfall value is above 5 or below 12, so the fungal-disease rule or the
  whitefly rule contributes 0.3 and the maximum score before escalation is at least 0.3;
  hence, when no extreme-weather escalation fires, the confidence of a Low verdict is at
  most 0.7.
\<close>

theorem C10_max_score_floor:
  "(rainfall w > 5 \<or> rainfall w < 12) \<and>
   py_max (map snd (calculate_individual_pest_risks w))
     = Inr (Max (snd ` set (calculate_individual_pest_risks w))) \<and>
   3/10 \<le> Max (snd ` set (calculate_individual_pest_risks w)) \<and>
   (\<forall>v. \<not> (temperature w > 35 \<or> temperature w < 5 \<or> humidity w > 90 \<or> humidity w < 20 \<or>
            rainfall w > 25) \<longrightarrow>
        determine_overall_risk (calculate_individual_pest_risks w) w = Inr v \<longrightarrow>
        level v = ''Low'' \<longrightarrow> risk_confidence v \<le> 7/10)"
proof (intro conjI allI impI)
  show "rainfall w > 5 \<or> rainfall w < 12" by linarith
  show "py_max (map snd (calculate_individual_pest_risks w))
     = Inr (Max (snd ` set (calculate_individual_pest_risks w)))"
    by (simp add: py_max_Max calc_nonempty)
  show "3/10 \<le> Max (snd ` set (calculate_individual_pest_risks w))" by (rule calc_max_ge)
next
  fix v
  assume calm: "\<not> (temperature w > 35 \<or> temperature w < 5 \<or> humidity w > 90 \<or> humidity w < 20 \<or>
            rainfall w > 25)"
    and v: "determine_overall_risk (calculate_individual_pest_risks w) w = Inr v"
    and low: "level v = ''Low''"
  let ?m = "Max (snd ` set (calculate_individual_pest_risks w))"
  from calm have "escalated ?m w = ?m" by (simp add: escalated_def extreme_weather_def)
  with v have "v = risk_of_max ?m" by (simp add: determine_overall_risk_eq calc_nonempty)
  with low calc_max_ge [of w] show "risk_confidence v \<le> 7/10"
    by (simp add: risk_of_max_def split: if_splits)
qed

theorem C10_max_score_floor_witness:
  "determine_overall_risk
      (calculate_individual_pest_risks \<lparr>temperature = 10, humidity = 45, rainfall = 12, timestamp = 0\<rparr>)
      \<lparr>temperature = 10, humidity = 45, rainfall = 12, timestamp = 0\<rparr>
     = Inr (risk_of_max (3/10)) \<and>
   level (risk_of_max (3/10)) = ''Low'' \<and> risk_confidence (risk_of_max (3/10)) \<le> 7/10"
proof -
  let ?w = "\<lparr>temperature = 10, humidity = 45, rainfall = 12, timestamp = 0\<rparr>"
  have scores: "calculate_individual_pest_risks ?w =
      [(''aphids'', 0), (''fungal_diseases'', 3/10), (''spider_mites'', 0),
       (''thrips'', 3/10), (''whiteflies'', 0)]"
    by (simp add: calculate_individual_pest_risks_def Let_def)
  have verdict: "determine_overall_risk (calculate_individual_pest_risks ?w) ?w = Inr (risk_of_max (3/10))"
    unfolding scores by (simp add: determine_overall_risk_def escalated_def extreme_weather_def)
  have low: "level (risk_of_max (3/10)) = ''Low''"
    by (simp add: risk_of_max_def)
  from C10_max_score_floor [of ?w] have
    "determine_overall_risk (calculate_individual_pest_risks ?w) ?w = Inr (risk_of_max (3/10)) \<longrightarrow>
       level (risk_of_max (3/10)) = ''Low'' \<longrightarrow> risk_confidence (risk_of_max (3/10)) \<le> 7/10"
    by simp
  with verdict low show ?thesis by blast
qed

subsection \<open>The assessment as a whole\<close>

lemma assess_eq:
  "assess_pest_risk fmt w =
     Inr \<lparr>risk_level = level (risk_of_max (escalated (Max (snd ` set (calculate_individual_pest_risks w))) w)),
          risk_color = color (risk_of_max (escalated (Max (snd ` set (calculate_individual_pest_risks w))) w)),
          risk_emoji = emoji (risk_of_max (escalated (Max (snd ` set (calculate_individual_pest_risks w))) w)),
          confidence = risk_confidence (risk_of_max (escalated (Max (snd ` set (calculate_individual_pest_risks w))) w)),
          primary_threats = identify_primary_threats (calculate_individual_pest_risks w),
          recommendations = generate_recommendations (calculate_individual_pest_risks w) w,
          weather_summary = generate_weather_summary fmt w,
          detailed_analysis = generate_detailed_analysis fmt (calculate_individual_pest_risks w) w\<rparr>"
  by (simp add: assess_pest_risk_def determine_overall_risk_eq calc_nonempty Let_def)

lemma unknown_override:
  "is_unknown disease \<Longrightarrow> get_pest_risk_assessment env location api_key disease = Inr unknown_assessment"
  by (simp add: get_pest_risk_assessment_def assess_eq unknown_assessment_def Let_def)

lemma not_unknown:
  "\<not> is_unknown disease \<Longrightarrow> get_pest_risk_assessment env location api_key disease =
     assess_pest_risk (float_fmt env) (get_weather_data env api_key location)"
  by (simp add: get_pest_risk_assessment_def assess_eq Let_def)

lemma calc_max_bounds:
  "0 \<le> Max (snd ` set (calculate_individual_pest_risks w)) \<and> Max (snd ` set (calculate_individual_pest_risks w)) \<le> 1"
proof -
  let ?S = "snd ` set (calculate_individual_pest_risks w)"
  have ne: "?S \<noteq> {}" using calc_nonempty by simp
  have fin: "finite ?S" by simp
  have "Max ?S \<in> ?S" using fin ne by (rule Max_in)
  then obtain c where "(c, Max ?S) \<in> set (table_scores w)"
    by (auto simp: calculate_eq_table)
  then show ?thesis by (rule table_scores_bounds)
qed

lemma escalated_bounds: "0 \<le> m \<Longrightarrow> m \<le> 1 \<Longrightarrow> 0 \<le> escalated m w \<and> escalated m w \<le> 1"
  by (simp add: escalated_def)

lemma risk_of_max_shape:
  "0 \<le> m \<Longrightarrow> m \<le> 1 \<Longrightarrow>
   level (risk_of_max m) \<in> {''Low'', ''Medium'', ''High''} \<and>
   0 \<le> risk_confidence (risk_of_max m) \<and> risk_confidence (risk_of_max m) \<le> 1"
  by (auto simp: risk_of_max_def min_def)

lemma analysis_keys:
  "map fst (generate_detailed_analysis fmt s w) = [''temperature'', ''humidity'', ''rainfall'']"
  by (simp add: generate_detailed_analysis_def Let_def)

lemma assess_well_formed:
  assumes "assess_pest_risk fmt w = Inr a"
  shows "well_formed a"
proof -
  let ?m = "escalated (Max (snd ` set (calculate_individual_pest_risks w))) w"
  from calc_max_bounds [of w] have m: "0 \<le> ?m" "?m \<le> 1" by (simp_all add: escalated_bounds)
  have shape: "level (risk_of_max ?m) \<in> {''Low'', ''Medium'', ''High''} \<and>
     0 \<le> risk_confidence (risk_of_max ?m) \<and> risk_confidence (risk_of_max ?m) \<le> 1"
    using m by (rule risk_of_max_shape)
  have threats: "length (identify_primary_threats (calculate_individual_pest_risks w)) \<le> 3"
    by (simp add: identify_primary_threats_def)
  from assms [unfolded assess_eq] have a: "a = \<lparr>risk_level = level (risk_of_max ?m),
          risk_color = color (risk_of_max ?m),
          risk_emoji = emoji (risk_of_max ?m),
          confidence = risk_confidence (risk_of_max ?m),
          primary_threats = identify_primary_threats (calculate_individual_pest_risks w),
          recommendations = generate_recommendations (calculate_individual_pest_risks w) w,
          weather_summary = generate_weather_summary fmt w,
          detailed_analysis = generate_detailed_analysis fmt (calculate_individual_pest_risks w) w\<rparr>"
    by simp
  show ?thesis
    unfolding well_formed_def a using shape threats
    by (auto simp: recs_eq recs_len recs_distinct analysis_keys)
qed

lemma unknown_well_formed: "well_formed unknown_assessment"
  by (simp add: well_formed_def unknown_assessment_def unknown_recommendations_def)

lemma unknown_fields:
  "risk_level unknown_assessment = ''Unknown'' \<and>
   confidence unknown_assessment = 0 \<and>
   primary_threats unknown_assessment = [''Not detected (image unknown)''] \<and>
   recommendations unknown_assessment = unknown_recommendations \<and>
   length unknown_recommendations = 4 \<and>
   weather_summary unknown_assessment = ''No valid assessment (image unrecognized)'' \<and>
   detailed_analysis unknown_assessment = []"
  by (simp add: unknown_assessment_def unknown_recommendations_def)

lemma assessment_total_well_formed:
  "\<exists>a. get_pest_risk_assessment env location api_key disease = Inr a \<and> well_formed a"
proof (cases "is_unknown disease")
  case True
  then show ?thesis by (simp add: unknown_override unknown_well_formed)
next
  case False
  obtain a where a: "assess_pest_risk (float_fmt env) (get_weather_data env api_key location) = Inr a"
    using assess_total by blast
  with False show ?thesis by (simp add: not_unknown assess_well_formed)
qed

subsection \<open>The override for an unrecognised image\<close>

text \<open>
  C4, as the claim words it, asks for an empty weather summary. The override stores a
  text instead: with the label \<open>Unknown\<close> the summary of the returned assessment is not
  the empty string.
\<close>

theorem C4_counterexample:
  "get_pest_risk_assessment offline ''Delhi'' None (Some ''Unknown'') = Inr unknown_assessment \<and>
   weather_summary unknown_assessment \<noteq> []"
  by (simp add: unknown_override is_unknown_def lower_def lower_char_def upper_letters_def
      lower_letters_def unknown_assessment_def)

text \<open>
  C4, amended. Whenever the classifier label is \<open>unknown\<close> in any letter case, whatever the
  environment, location and key (hence whatever the reading), the call returns the fixed
  Unknown assessment in full: level Unknown, confidence 0, the one-item threat list, the
  fixed four recommendations, the fixed placeholder text
  \<open>No valid assessment (image unrecognized)\<close> as weather summary, and an empty detailed
  analysis. All eight fields are overwritten, none comes from the weather.
\<close>

theorem C4_unknown_override:
  assumes "is_unknown disease"
  shows "get_pest_risk_assessment env location api_key disease = Inr unknown_assessment \<and>
   risk_level unknown_assessment = ''Unknown'' \<and>
   confidence unknown_assessment = 0 \<and>
   primary_threats unknown_assessment = [''Not detected (image unknown)''] \<and>
   recommendations unknown_assessment = unknown_recommendations \<and>
   length unknown_recommendations = 4 \<and>
   weather_summary unknown_assessment = ''No valid assessment (image unrecognized)'' \<and>
   detailed_analysis unknown_assessment = []"
  using unknown_override [OF assms] unknown_fields by simp

theorem C4_unknown_override_witness:
  "is_unknown (Some ''UNKNOWN'') \<and>
   get_pest_risk_assessment offline ''Delhi'' (Some ''key'') (Some ''UNKNOWN'') = Inr unknown_assessment"
proof -
  have u: "is_unknown (Some ''UNKNOWN'')"
    by (simp add: is_unknown_def lower_def lower_char_def upper_letters_def lower_letters_def)
  from C4_unknown_override [OF u, of offline "''Delhi''" "Some ''key''"] u show ?thesis by simp
qed

subsection \<open>The cool and wet scenario\<close>

text \<open>
  C8, as the claim words it, fails twice on the reading (18, 85, 15): the fungal-disease
  score is not 1, and the first primary threat is not \<open>Fungal Diseases\<close>.
\<close>

theorem C8_counterexample:
  "score_of (calculate_individual_pest_risks
       \<lparr>temperature = 18, humidity = 85, rainfall = 15, timestamp = 0\<rparr>) ''fungal_diseases'' \<noteq> Some 1 \<and>
   hd (identify_primary_threats (calculate_individual_pest_risks
       \<lparr>temperature = 18, humidity = 85, rainfall = 15, timestamp = 0\<rparr>)) \<noteq> ''Fungal Diseases''"
proof -
  have scores: "calculate_individual_pest_risks \<lparr>temperature = 18, humidity = 85, rainfall = 15, timestamp = 0\<rparr> =
      [(''aphids'', 7/10), (''fungal_diseases'', 7/10), (''spider_mites'', 0),
       (''thrips'', 0), (''whiteflies'', 3/10)]"
    by (simp add: calculate_individual_pest_risks_def Let_def)
  show ?thesis unfolding scores
    by (simp add: score_of_def identify_primary_threats_def significant_threats_def
        sorted_reverse_def threat_name_def threat_names_def)
qed

text \<open>
  C8, amended. For the reading (18, 85, 15) the fungal-disease score is 0.4 + 0.3 = 0.7,
  the temperature 18 being outside [20,30]; the verdict is High; and the primary threats
  are \<open>Aphid Infestation\<close> then \<open>Fungal Diseases\<close>, both categories scoring 0.7 and aphids
  being declared first.
\<close>

theorem C8_cool_wet_scenario:
  "score_of (calculate_individual_pest_risks
       \<lparr>temperature = 18, humidity = 85, rainfall = 15, timestamp = t\<rparr>) ''fungal_diseases''
     = Some (4/10 + 3/10) \<and>
   determine_overall_risk
       (calculate_individual_pest_risks \<lparr>temperature = 18, humidity = 85, rainfall = 15, timestamp = t\<rparr>)
       \<lparr>temperature = 18, humidity = 85, rainfall = 15, timestamp = t\<rparr>
     = Inr (risk_of_max (7/10)) \<and>
   level (risk_of_max (7/10)) = ''High'' \<and>
   identify_primary_threats (calculate_individual_pest_risks
       \<lparr>temperature = 18, humidity = 85, rainfall = 15, timestamp = t\<rparr>)
     = [''Aphid Infestation'', ''Fungal Diseases'']"
proof -
  have scores: "calculate_individual_pest_risks \<lparr>temperature = 18, humidity = 85, rainfall = 15, timestamp = t\<rparr> =
      [(''aphids'', 7/10), (''fungal_diseases'', 7/10), (''spider_mites'', 0),
       (''thrips'', 0), (''whiteflies'', 3/10)]"
    by (simp add: calculate_individual_pest_risks_def Let_def)
  show ?thesis unfolding scores
    by (simp add: score_of_def identify_primary_threats_def significant_threats_def
        sorted_reverse_def threat_name_def threat_names_def determine_overall_risk_def
        escalated_def extreme_weather_def risk_of_max_def)
qed

subsection \<open>The weather provider\<close>

lemma mock_in_scenarios: "generate_mock_weather env \<in> set (scenarios (now env))"
  unfolding generate_mock_weather_def Let_def by (rule nth_mem) (simp add: scenarios_def)

lemma fallback:
  assumes "api_key = None \<or> api_key = Some [] \<or>
     (\<exists>key. api_key = Some key \<and>
        (http_get env location key = Request_raises \<or>
         (\<exists>status body. http_get env location key = Reply status body \<and>
            (status \<noteq> 200 \<or> body = None))))"
  shows "get_weather_data env api_key location = generate_mock_weather env"
  using assms by (auto simp: get_weather_data_def)

text \<open>
  C9. When the key is missing or empty, or the request raises (transport error, timeout),
  or the answer has a status other than 200 or a body that cannot be read, the fetch
  returns one of the five fixed scenarios, (22, 55, 2), (28, 68, 8), (34, 82, 18),
  (26, 45, 0) and (18, 85, 15); assessing that reading returns a well-formed assessment,
  and so does the whole call for every classifier label: no error reaches the caller.
\<close>

theorem C9_fetch_never_fails:
  assumes "api_key = None \<or> api_key = Some [] \<or>
     (\<exists>key. api_key = Some key \<and>
        (http_get env location key = Request_raises \<or>
         (\<exists>status body. http_get env location key = Reply status body \<and>
            (status \<noteq> 200 \<or> body = None))))"
  shows "get_weather_data env api_key location \<in> set (scenarios (now env)) \<and>
    map (\<lambda>r. (temperature r, humidity r, rainfall r)) (scenarios (now env)) =
      [(22, 55, 2), (28, 68, 8), (34, 82, 18), (26, 45, 0), (18, 85, 15)] \<and>
    (\<exists>a. assess_pest_risk (float_fmt env) (get_weather_data env api_key location) = Inr a \<and>
         well_formed a) \<and>
    (\<forall>disease. \<exists>a. get_pest_risk_assessment env location api_key disease = Inr a \<and> well_formed a)"
proof (intro conjI allI)
  show "get_weather_data env api_key location \<in> set (scenarios (now env))"
    by (simp add: fallback [OF assms] mock_in_scenarios)
  show "map (\<lambda>r. (temperature r, humidity r, rainfall r)) (scenarios (now env)) =
      [(22, 55, 2), (28, 68, 8), (34, 82, 18), (26, 45, 0), (18, 85, 15)]"
    by (simp add: scenarios_def)
  show "\<exists>a. assess_pest_risk (float_fmt env) (get_weather_data env api_key location) = Inr a \<and>
         well_formed a"
    using assess_total assess_well_formed by blast
  show "\<exists>a. get_pest_risk_assessment env location api_key disease = Inr a \<and> well_formed a" for disease
    by (rule assessment_total_well_formed)
qed

theorem C9_fetch_never_fails_witness:
  "http_get offline ''Delhi'' ''key'' = Request_raises \<and>
   get_weather_data offline (Some ''key'') ''Delhi''
     = \<lparr>temperature = 18, humidity = 85, rainfall = 15, timestamp = 0\<rparr> \<and>
   get_weather_data offline (Some ''key'') ''Delhi'' \<in> set (scenarios (now offline)) \<and>
   (\<exists>a. get_pest_risk_assessment offline ''Delhi'' (Some ''key'') None = Inr a \<and> well_formed a)"
proof -
  have h: "http_get offline ''Delhi'' ''key'' = Request_raises"
    by (simp add: offline_def no_network_def)
  then have pre: "Some ''key'' = None \<or> Some ''key'' = Some [] \<or>
     (\<exists>key. Some ''key'' = Some key \<and>
        (http_get offline ''Delhi'' key = Request_raises \<or>
         (\<exists>status body. http_get offline ''Delhi'' key = Reply status body \<and>
            (status \<noteq> 200 \<or> body = None))))"
    by simp
  have w: "get_weather_data offline (Some ''key'') ''Delhi''
     = \<lparr>temperature = 18, humidity = 85, rainfall = 15, timestamp = 0\<rparr>"
    by (simp add: get_weather_data_def offline_def no_network_def generate_mock_weather_def
        scenarios_def Let_def)
  from C9_fetch_never_fails [OF pre] h w show ?thesis by blast
qed

end
